theory Spec2Isabelle
  imports Complex_Main
begin

section \<open>Web3 construct stability calculator (app.py)\<close>

text \<open>
  The program is a static catalog, two arithmetic functions and a command-line front end.
  What Python raises is kept: every operation that can raise returns a sum, \<open>Inl\<close> the
  exception. The floats of the program are read in two ways.

  In the exact reading (\<open>stability_curve\<close>, \<open>base_score\<close>, \<open>compute_score\<close>) a float is
  the real number it stands for, a decimal literal the decimal fraction it spells and an
  operation the exact operation. This reading carries the properties of range, of order
  and of the error conditions, which rounding to the nearest double preserves.

  In the binary64 reading (the functions with the suffix \<open>_f64\<close>) every literal and every
  operation is rounded to the nearest double, as the processor does. This reading carries
  the digits the program returns: the two readings differ in the fourth decimal of a
  rounded field where the exact value is a tie.
\<close>

subsection \<open>Exceptions and the arithmetic of the runtime\<close>

datatype error =
    ZeroDivisionError
  | OverflowError
  | KeyError string
  | SystemExit int

text \<open>Sequencing of statements that may raise: the first exception wins.\<close>

definition seq :: "error + 'a \<Rightarrow> ('a \<Rightarrow> error + 'b) \<Rightarrow> error + 'b" where
  "seq r f = (case r of Inl e \<Rightarrow> Inl e | Inr v \<Rightarrow> f v)"

text \<open>
  The largest finite double is \<open>2\<^sup>1\<^sup>0\<^sup>2\<^sup>4 - 2\<^sup>9\<^sup>7\<^sup>1\<close>. A real at least half a unit in the last place
  above it has no finite nearest double: an operation with such a result overflows.
\<close>

definition DBL_MAX :: real where
  "DBL_MAX = 2 ^ 1024 - 2 ^ 971"

definition rounds_to_inf :: "real \<Rightarrow> bool" where
  "rounds_to_inf y \<longleftrightarrow> DBL_MAX + 2 ^ 970 \<le> \<bar>y\<bar>"

text \<open>
  \<open>math.exp\<close> raises \<open>OverflowError\<close> (math range error) when the result leaves the
  range of the doubles; underflow silently gives a result near zero.
\<close>

definition math_exp :: "real \<Rightarrow> error + real" where
  "math_exp x = (if rounds_to_inf (exp x) then Inl OverflowError else Inr (exp x))"

text \<open>
  True division \<open>a / b\<close> of two Python ints: \<open>ZeroDivisionError\<close> for a zero divisor,
  \<open>OverflowError\<close> when the quotient is too large for a float.
\<close>

definition int_truediv :: "int \<Rightarrow> int \<Rightarrow> error + real" where
  "int_truediv a b =
     (if b = 0 then Inl ZeroDivisionError
      else if rounds_to_inf (real_of_int a / real_of_int b) then Inl OverflowError
      else Inr (real_of_int a / real_of_int b))"

text \<open>Division \<open>a / b\<close> with a float divisor: \<open>ZeroDivisionError\<close> for a zero divisor.\<close>

definition float_div :: "real \<Rightarrow> real \<Rightarrow> error + real" where
  "float_div a b = (if b = 0 then Inl ZeroDivisionError else Inr (a / b))"

text \<open>
  The builtin \<open>round(x, n)\<close> on a float: the nearest multiple of \<open>10\<^sup>-\<^sup>n\<close>, a tie going to
  the even one.
\<close>

definition round_half_even :: "real \<Rightarrow> int" where
  "round_half_even y =
     (let f = \<lfloor>y\<rfloor>; d = y - real_of_int f
      in if d < 1 / 2 then f
         else if 1 / 2 < d then f + 1
         else if even f then f else f + 1)"

definition py_round :: "real \<Rightarrow> nat \<Rightarrow> real" where
  "py_round x n = real_of_int (round_half_even (x * 10 ^ n)) / 10 ^ n"

subsection \<open>The catalog\<close>

record Web3Construct =
  key :: string
  name :: string
  category :: string
  baseline_security :: real
  privacy_factor :: real
  scalability_factor :: real
  description :: string

text \<open>
  \<open>CONSTRUCTS\<close> is a dict literal; a dict keeps insertion order, which
  \<open>list(CONSTRUCTS.keys())\<close> exposes, so it is an association list here.
\<close>

definition CONSTRUCTS :: "(string \<times> Web3Construct) list" where
  "CONSTRUCTS =
    [(''aztec-zk'',
      \<lparr> key = ''aztec-zk'',
        name = ''Aztec-Style zk Circuit'',
        category = ''zk privacy'',
        baseline_security = 0.81,
        privacy_factor = 0.94,
        scalability_factor = 0.58,
        description = ''Circuit-focused private computation with encrypted state roots.'' \<rparr>),
     (''zama-fhe'',
      \<lparr> key = ''zama-fhe'',
        name = ''Zama FHE Compute Layer'',
        category = ''fhe compute'',
        baseline_security = 0.89,
        privacy_factor = 0.87,
        scalability_factor = 0.42,
        description = ''Fully homomorphic encrypted computation woven into Web3 data models.'' \<rparr>),
     (''soundness-lab'',
      \<lparr> key = ''soundness-lab'',
        name = ''Soundness-Driven Formal Model'',
        category = ''formal verification'',
        baseline_security = 0.97,
        privacy_factor = 0.51,
        scalability_factor = 0.72,
        description = ''Extremely rigorous models built from formal proofs and verified semantics.'' \<rparr>)]"

text \<open>\<open>d.keys()\<close> and the subscription \<open>d[k]\<close>, which raises \<open>KeyError\<close> on a missing key.\<close>

definition keys :: "(string \<times> 'v) list \<Rightarrow> string list" where
  "keys d = map fst d"

definition getitem :: "(string \<times> 'v) list \<Rightarrow> string \<Rightarrow> error + 'v" where
  "getitem d k = (case map_of d k of None \<Rightarrow> Inl (KeyError k) | Some v \<Rightarrow> Inr v)"

subsection \<open>The stability curve\<close>

definition stability_curve :: "real \<Rightarrow> real \<Rightarrow> int \<Rightarrow> error + real" where
  "stability_curve latency_ms sync_ms throughput =
     seq (math_exp (- latency_ms / 1500)) (\<lambda>latency_term.
     seq (math_exp (- sync_ms / 800)) (\<lambda>sync_term.
     seq (int_truediv throughput 10000) (\<lambda>load.
     seq (float_div 1 (1 + load)) (\<lambda>throughput_term.
     Inr (max 0 (min 1 ((latency_term + sync_term + throughput_term) / 3)))))))"

subsection \<open>The score\<close>

text \<open>
  The returned dict, one field per key; the keys \<open>construct\<close>, \<open>name\<close>, \<open>category\<close>,
  \<open>description\<close> and \<open>throughput\<close> carry the prefix \<open>r_\<close>.
\<close>

record ScoreResult =
  r_construct :: string
  r_name :: string
  r_category :: string
  r_description :: string
  latencyMs :: real
  syncMs :: real
  r_throughput :: int
  enableCommitments :: bool
  enableProofs :: bool
  enableFhe :: bool
  stabilityMultiplier :: real
  finalScore :: real

text \<open>The value of the local \<open>base\<close> when \<open>stability_curve\<close> is called.\<close>

definition base_score :: "Web3Construct \<Rightarrow> bool \<Rightarrow> bool \<Rightarrow> bool \<Rightarrow> real" where
  "base_score constr enable_commitments enable_proofs enable_fhe =
     (let base = baseline_security constr * 0.40
               + privacy_factor constr * 0.30
               + scalability_factor constr * 0.30;
          base = (if enable_commitments then base + 0.04 else base);
          base = (if enable_proofs then base + 0.07 else base);
          base = (if enable_fhe then base + 0.05 else base)
      in base)"

definition compute_score ::
  "Web3Construct \<Rightarrow> real \<Rightarrow> real \<Rightarrow> int \<Rightarrow> bool \<Rightarrow> bool \<Rightarrow> bool \<Rightarrow> error + ScoreResult" where
  "compute_score constr latency_ms sync_ms throughput
       enable_commitments enable_proofs enable_fhe =
     (let base = base_score constr enable_commitments enable_proofs enable_fhe
      in seq (stability_curve latency_ms sync_ms throughput) (\<lambda>stability.
         let final = max 0 (min 1 (base * stability))
         in Inr \<lparr> r_construct = key constr,
                  r_name = name constr,
                  r_category = category constr,
                  r_description = description constr,
                  latencyMs = latency_ms,
                  syncMs = sync_ms,
                  r_throughput = throughput,
                  enableCommitments = enable_commitments,
                  enableProofs = enable_proofs,
                  enableFhe = enable_fhe,
                  stabilityMultiplier = py_round stability 4,
                  finalScore = py_round final 4 \<rparr>))"

subsection \<open>The command line\<close>

text \<open>
  The command line after tokenising: each option is absent or carries its value; the
  conversions \<open>float\<close> and \<open>int\<close> of the numeric options are taken as done.
\<close>

record Argv =
  opt_construct :: "string option"
  opt_latency :: "real option"
  opt_sync :: "real option"
  opt_throughput :: "int option"
  opt_commitments :: bool
  opt_proofs :: bool
  opt_fhe :: bool
  opt_json :: bool

record Namespace =
  arg_construct :: string
  arg_latency :: real
  arg_sync :: real
  arg_throughput :: int
  arg_commitments :: bool
  arg_proofs :: bool
  arg_fhe :: bool
  arg_json :: bool

text \<open>
  An option declared with \<open>choices\<close>: a value outside them makes \<open>argparse\<close> print the
  usage and exit with status 2; an absent option takes the default.
\<close>

definition check_choices :: "string list \<Rightarrow> string \<Rightarrow> string option \<Rightarrow> error + string" where
  "check_choices choices dflt v =
     (case v of
        None \<Rightarrow> Inr dflt
      | Some s \<Rightarrow> if s \<in> set choices then Inr s else Inl (SystemExit 2))"

definition parse_args :: "Argv \<Rightarrow> error + Namespace" where
  "parse_args argv =
     seq (check_choices (keys CONSTRUCTS) ''aztec-zk'' (opt_construct argv)) (\<lambda>c.
     Inr \<lparr> arg_construct = c,
           arg_latency = (case opt_latency argv of None \<Rightarrow> 180.0 | Some x \<Rightarrow> x),
           arg_sync = (case opt_sync argv of None \<Rightarrow> 950.0 | Some x \<Rightarrow> x),
           arg_throughput = (case opt_throughput argv of None \<Rightarrow> 3000 | Some n \<Rightarrow> n),
           arg_commitments = opt_commitments argv,
           arg_proofs = opt_proofs argv,
           arg_fhe = opt_fhe argv,
           arg_json = opt_json argv \<rparr>)"

text \<open>
  \<open>main\<close> up to the printing: the result and whether it is rendered as JSON. An \<open>Inl\<close> is
  the exception that ends the process.
\<close>

definition main :: "Argv \<Rightarrow> error + (bool \<times> ScoreResult)" where
  "main argv =
     seq (parse_args argv) (\<lambda>args.
     seq (getitem CONSTRUCTS (arg_construct args)) (\<lambda>constr.
     seq (compute_score constr (arg_latency args) (arg_sync args) (arg_throughput args)
            (arg_commitments args) (arg_proofs args) (arg_fhe args)) (\<lambda>result.
     Inr (arg_json args, result))))"

subsection \<open>Binary64 arithmetic\<close>

text \<open>
  The double nearest to a real, a tie going to the even significand: 53 significant bits,
  the exponent of the last place not below \<open>-1074\<close> (the subnormal numbers). The doubles
  are the values of \<open>fl\<close>. Infinities and NaN are not values: the one operation of the
  program that can pass the largest double without raising is the sum of the two
  exponentials, and \<open>min(1.0, _)\<close> returns 1 for it as it does for infinity.
\<close>

definition fl :: "real \<Rightarrow> real" where
  "fl x =
     (if x = 0 then 0
      else let e = max \<lfloor>log 2 \<bar>x\<bar>\<rfloor> (- 1022);
               q = 2 powr real_of_int (e - 52)
           in real_of_int (round_half_even (x / q)) * q)"

text \<open>
  \<open>math.exp\<close> calls the exponential of the C library of the platform, which is not part of
  the program: it is the parameter \<open>libm_exp\<close>, a function on the doubles that gives
  \<open>None\<close> where the library returns infinity, for which \<open>math.exp\<close> raises
  \<open>OverflowError\<close>.
\<close>

definition math_exp_f64 :: "(real \<Rightarrow> real option) \<Rightarrow> real \<Rightarrow> error + real" where
  "math_exp_f64 libm_exp x =
     (case libm_exp x of None \<Rightarrow> Inl OverflowError | Some y \<Rightarrow> Inr y)"

text \<open>True division of two ints gives the double nearest to the quotient.\<close>

definition int_truediv_f64 :: "int \<Rightarrow> int \<Rightarrow> error + real" where
  "int_truediv_f64 a b =
     (if b = 0 then Inl ZeroDivisionError
      else if rounds_to_inf (real_of_int a / real_of_int b) then Inl OverflowError
      else Inr (fl (real_of_int a / real_of_int b)))"

definition float_div_f64 :: "real \<Rightarrow> real \<Rightarrow> error + real" where
  "float_div_f64 a b = (if b = 0 then Inl ZeroDivisionError else Inr (fl (a / b)))"

text \<open>
  \<open>stability_curve\<close> with the rounding of each operation: the quotients
  \<open>-latency_ms / 1500\<close> and \<open>-sync_ms / 800\<close>, the two sums left to right and the
  division by 3.
\<close>

definition stability_curve_f64 ::
  "(real \<Rightarrow> real option) \<Rightarrow> real \<Rightarrow> real \<Rightarrow> int \<Rightarrow> error + real" where
  "stability_curve_f64 libm_exp latency_ms sync_ms throughput =
     seq (math_exp_f64 libm_exp (fl (- latency_ms / 1500))) (\<lambda>latency_term.
     seq (math_exp_f64 libm_exp (fl (- sync_ms / 800))) (\<lambda>sync_term.
     seq (int_truediv_f64 throughput 10000) (\<lambda>load.
     seq (float_div_f64 1 (fl (1 + load))) (\<lambda>throughput_term.
     Inr (max 0 (min 1
       (fl (fl (fl (latency_term + sync_term) + throughput_term) / 3))))))))"

text \<open>
  The local \<open>base\<close> with the rounding of each literal, product and sum. The three factors
  of a construct are floats written as decimal literals in the catalog: \<open>fl\<close> converts
  them where they are read.
\<close>

definition base_score_f64 :: "Web3Construct \<Rightarrow> bool \<Rightarrow> bool \<Rightarrow> bool \<Rightarrow> real" where
  "base_score_f64 constr enable_commitments enable_proofs enable_fhe =
     (let base = fl (fl (fl (fl (baseline_security constr) * fl 0.40)
                         + fl (fl (privacy_factor constr) * fl 0.30))
                     + fl (fl (scalability_factor constr) * fl 0.30));
          base = (if enable_commitments then fl (base + fl 0.04) else base);
          base = (if enable_proofs then fl (base + fl 0.07) else base);
          base = (if enable_fhe then fl (base + fl 0.05) else base)
      in base)"

definition compute_score_f64 ::
  "(real \<Rightarrow> real option) \<Rightarrow> Web3Construct \<Rightarrow> real \<Rightarrow> real \<Rightarrow> int \<Rightarrow> bool \<Rightarrow> bool \<Rightarrow> bool
     \<Rightarrow> error + ScoreResult" where
  "compute_score_f64 libm_exp constr latency_ms sync_ms throughput
       enable_commitments enable_proofs enable_fhe =
     (let base = base_score_f64 constr enable_commitments enable_proofs enable_fhe
      in seq (stability_curve_f64 libm_exp latency_ms sync_ms throughput) (\<lambda>stability.
         let final = max 0 (min 1 (fl (base * stability)))
         in Inr \<lparr> r_construct = key constr,
                  r_name = name constr,
                  r_category = category constr,
                  r_description = description constr,
                  latencyMs = latency_ms,
                  syncMs = sync_ms,
                  r_throughput = throughput,
                  enableCommitments = enable_commitments,
                  enableProofs = enable_proofs,
                  enableFhe = enable_fhe,
                  stabilityMultiplier = py_round stability 4,
                  finalScore = py_round final 4 \<rparr>))"

text \<open>A library whose exponential is the double nearest to the exact one.\<close>

definition libm_nearest :: "real \<Rightarrow> real option" where
  "libm_nearest x = (if rounds_to_inf (exp x) then None else Some (fl (exp x)))"

text \<open>The roundings of the concrete operations evaluated below.\<close>

named_theorems fl_evals

subsection \<open>The formulas of the specification\<close>

text \<open>
  The inputs on which no statement of \<open>stability_curve\<close> raises: neither exponential and
  not the quotient \<open>throughput / 10000\<close> overflows, and the divisor
  \<open>1 + throughput / 10000\<close> is not zero.
\<close>

definition valid_inputs :: "real \<Rightarrow> real \<Rightarrow> int \<Rightarrow> bool" where
  "valid_inputs latency_ms sync_ms throughput \<longleftrightarrow>
     \<not> rounds_to_inf (exp (- latency_ms / 1500)) \<and>
     \<not> rounds_to_inf (exp (- sync_ms / 800)) \<and>
     \<not> rounds_to_inf (real_of_int throughput / 10000) \<and>
     throughput \<noteq> - 10000"

text \<open>The specification's \<open>clamp(x, lo, hi)\<close>.\<close>

definition clamp :: "real \<Rightarrow> real \<Rightarrow> real \<Rightarrow> real" where
  "clamp x lo hi = (if x < lo then lo else if hi < x then hi else x)"

text \<open>The specification's stability formula, read over the reals.\<close>

definition spec_stability :: "real \<Rightarrow> real \<Rightarrow> real \<Rightarrow> real" where
  "spec_stability latency_ms sync_ms throughput =
     (let latencyTerm = exp (- latency_ms / 1500);
          syncTerm = exp (- sync_ms / 800);
          throughputTerm = 1 / (1 + throughput / 10000)
      in clamp ((latencyTerm + syncTerm + throughputTerm) / 3) 0 1)"

text \<open>
  The specification's base score in binary64: the weighted sum, then \<open>base += amount\<close> for
  each enabled flag in the order commitments, proofs, FHE.
\<close>

definition bonus_f64 :: "bool \<Rightarrow> real \<Rightarrow> real \<Rightarrow> real" where
  "bonus_f64 enabled amount base = (if enabled then fl (base + fl amount) else base)"

definition spec_base_f64 :: "Web3Construct \<Rightarrow> bool \<Rightarrow> bool \<Rightarrow> bool \<Rightarrow> real" where
  "spec_base_f64 c enableCommitments' enableProofs' enableFhe' =
     bonus_f64 enableFhe' 0.05 (bonus_f64 enableProofs' 0.07 (bonus_f64 enableCommitments' 0.04
       (fl (fl (fl (fl (baseline_security c) * fl 0.40) + fl (fl (privacy_factor c) * fl 0.30))
            + fl (fl (scalability_factor c) * fl 0.30)))))"

section \<open>Properties\<close>

subsection \<open>Sequencing and the range of the doubles\<close>

lemma seq_Inr [simp]: "seq (Inr v) f = f v"
  by (simp add: seq_def)

lemma seq_Inl [simp]: "seq (Inl e) f = Inl e"
  by (simp add: seq_def)

lemma rounds_to_inf_iff: "rounds_to_inf y \<longleftrightarrow> 2 ^ 1024 - 2 ^ 970 \<le> \<bar>y\<bar>"
proof -
  have "(2::real) ^ 971 = 2 * 2 ^ 970" by (simp add: power_Suc [symmetric] del: power_Suc)
  then show ?thesis by (simp add: rounds_to_inf_def DBL_MAX_def)
qed

lemma not_rounds_to_inf_small:
  assumes "\<bar>y\<bar> \<le> 2 ^ 1023"
  shows "\<not> rounds_to_inf y"
proof -
  have a: "(2::real) ^ 1024 = 2 * 2 ^ 1023" by (simp add: power_Suc [symmetric] del: power_Suc)
  have "(2::real) ^ 970 < 2 ^ 1023" by (rule power_strict_increasing) simp_all
  with a assms have "\<bar>y\<bar> < 2 ^ 1024 - 2 ^ 970" by linarith
  then show ?thesis by (simp add: rounds_to_inf_iff)
qed

lemma not_rounds_to_inf_le_one: "\<bar>y\<bar> \<le> 1 \<Longrightarrow> \<not> rounds_to_inf y"
proof (rule not_rounds_to_inf_small)
  assume "\<bar>y\<bar> \<le> 1"
  moreover have "(1::real) \<le> 2 ^ 1023" by (rule one_le_power) simp
  ultimately show "\<bar>y\<bar> \<le> 2 ^ 1023" by linarith
qed

lemma not_rounds_to_inf_smaller:
  "\<not> rounds_to_inf y \<Longrightarrow> \<bar>x\<bar> \<le> \<bar>y\<bar> \<Longrightarrow> \<not> rounds_to_inf x"
  by (simp add: rounds_to_inf_def)

lemma math_exp_nonpos: "x \<le> 0 \<Longrightarrow> math_exp x = Inr (exp x)"
  by (simp add: math_exp_def not_rounds_to_inf_le_one)

lemma exp_600_small: "exp (600::real) \<le> 2 ^ 1023"
proof -
  have "exp (600::real) = exp (of_nat 600 * 1)" by simp
  also have "\<dots> = exp 1 ^ 600" by (rule exp_of_nat_mult)
  also have "\<dots> \<le> (3::real) ^ 600" by (rule power_mono) (simp_all add: exp_le)
  also have "\<dots> \<le> 2 ^ 1023" by simp
  finally show ?thesis .
qed

subsection \<open>Rounding to decimal places\<close>

lemma round_half_even_ge_floor: "\<lfloor>y\<rfloor> \<le> round_half_even y"
  by (simp add: round_half_even_def Let_def)

lemma round_half_even_le_floor_Suc: "round_half_even y \<le> \<lfloor>y\<rfloor> + 1"
  by (simp add: round_half_even_def Let_def)

lemma round_half_even_of_int [simp]: "round_half_even (real_of_int n) = n"
  by (simp add: round_half_even_def Let_def)

lemma round_half_even_mono:
  assumes "x \<le> y"
  shows "round_half_even x \<le> round_half_even y"
proof (cases "\<lfloor>x\<rfloor> = \<lfloor>y\<rfloor>")
  case True
  with assms have "x - real_of_int \<lfloor>x\<rfloor> \<le> y - real_of_int \<lfloor>y\<rfloor>" by simp
  with True show ?thesis by (auto simp add: round_half_even_def Let_def)
next
  case False
  from assms have "\<lfloor>x\<rfloor> \<le> \<lfloor>y\<rfloor>" by (rule floor_mono)
  with False have "\<lfloor>x\<rfloor> + 1 \<le> \<lfloor>y\<rfloor>" by simp
  with round_half_even_le_floor_Suc [of x] round_half_even_ge_floor [of y]
  show ?thesis by linarith
qed

lemma py_round_mono: "x \<le> y \<Longrightarrow> py_round x n \<le> py_round y n"
proof -
  assume "x \<le> y"
  then have "x * 10 ^ n \<le> y * 10 ^ n" by simp
  then have "round_half_even (x * 10 ^ n) \<le> round_half_even (y * 10 ^ n)"
    by (rule round_half_even_mono)
  then show ?thesis by (simp add: py_round_def divide_right_mono)
qed

lemma py_round_zero [simp]: "py_round 0 n = 0"
  using round_half_even_of_int [of 0] by (simp add: py_round_def del: round_half_even_of_int)

lemma py_round_one [simp]: "py_round 1 n = 1"
proof -
  have "(10::real) ^ n = real_of_int (10 ^ n)" by simp
  then have "round_half_even (10 ^ n) = 10 ^ n" by (simp only: round_half_even_of_int)
  then show ?thesis by (simp add: py_round_def)
qed

lemma py_round_unit: "0 \<le> x \<Longrightarrow> x \<le> 1 \<Longrightarrow> 0 \<le> py_round x n \<and> py_round x n \<le> 1"
  using py_round_mono [of 0 x n] py_round_mono [of x 1 n] by simp

lemma clamp_max_min: "max 0 (min 1 x) = clamp x 0 1"
  by (simp add: clamp_def max_def min_def)

lemma clamp_unit_mono: "x \<le> y \<Longrightarrow> max 0 (min 1 x) \<le> max (0::real) (min 1 y)"
  by (simp add: max_def min_def)

subsection \<open>What \<open>stability_curve\<close> returns and raises\<close>

lemma load_eq_minus_one_iff: "1 + real_of_int t / 10000 = 0 \<longleftrightarrow> t = - 10000"
proof
  assume "1 + real_of_int t / 10000 = 0"
  then have "real_of_int t = real_of_int (- 10000)" by simp
  then show "t = - 10000" by (simp only: of_int_eq_iff)
qed simp

text \<open>
  The statements run in order, so an overflowing exponential is reported before the zero
  divisor at \<open>throughput = -10000\<close>.
\<close>

lemma stability_curve_cases:
  "stability_curve l s t =
     (if rounds_to_inf (exp (- l / 1500)) then Inl OverflowError
      else if rounds_to_inf (exp (- s / 800)) then Inl OverflowError
      else if rounds_to_inf (real_of_int t / 10000) then Inl OverflowError
      else if t = - 10000 then Inl ZeroDivisionError
      else Inr (max 0 (min 1 ((exp (- l / 1500) + exp (- s / 800)
                                 + 1 / (1 + real_of_int t / 10000)) / 3))))"
  using load_eq_minus_one_iff [of t]
  by (simp add: stability_curve_def math_exp_def int_truediv_def float_div_def)

lemma stability_curve_valid:
  "valid_inputs l s t \<Longrightarrow>
   stability_curve l s t =
     Inr (max 0 (min 1 ((exp (- l / 1500) + exp (- s / 800)
                          + 1 / (1 + real_of_int t / 10000)) / 3)))"
  by (simp add: stability_curve_cases valid_inputs_def)

lemma stability_curve_Inr_iff:
  "stability_curve l s t = Inr v \<longleftrightarrow>
     valid_inputs l s t \<and>
     v = max 0 (min 1 ((exp (- l / 1500) + exp (- s / 800)
                          + 1 / (1 + real_of_int t / 10000)) / 3))"
  by (auto simp add: stability_curve_cases valid_inputs_def)

lemma stability_curve_spec:
  "valid_inputs l s t \<Longrightarrow> stability_curve l s t = Inr (spec_stability l s (real_of_int t))"
  by (simp add: stability_curve_valid spec_stability_def Let_def clamp_max_min)

lemma stability_curve_range: "stability_curve l s t = Inr st \<Longrightarrow> 0 \<le> st \<and> st \<le> 1"
  by (auto simp add: stability_curve_Inr_iff)

lemma stability_curve_origin: "stability_curve 0 0 0 = Inr 1"
  by (simp add: stability_curve_cases not_rounds_to_inf_le_one)

lemma valid_inputs_zero: "valid_inputs 0 0 0"
  by (simp add: valid_inputs_def not_rounds_to_inf_le_one)

text \<open>
  Negative latency, sync time and throughput are inside the valid inputs as long as they
  stay far from the range of the doubles.
\<close>

lemma valid_inputs_bounds:
  assumes "- 900000 \<le> l" and "- 480000 \<le> s" and "\<bar>t\<bar> \<le> 10 ^ 300" and "t \<noteq> - 10000"
  shows "valid_inputs l s t"
proof -
  have "- l / 1500 \<le> 600" using assms(1) by simp
  then have "exp (- l / 1500) \<le> exp 600" by simp
  then have "exp (- l / 1500) \<le> 2 ^ 1023" using exp_600_small by (rule order_trans)
  then have "\<bar>exp (- l / 1500)\<bar> \<le> 2 ^ 1023" by (simp only: abs_exp_cancel)
  then have a: "\<not> rounds_to_inf (exp (- l / 1500))" by (rule not_rounds_to_inf_small)
  have "- s / 800 \<le> 600" using assms(2) by simp
  then have "exp (- s / 800) \<le> exp 600" by simp
  then have "exp (- s / 800) \<le> 2 ^ 1023" using exp_600_small by (rule order_trans)
  then have "\<bar>exp (- s / 800)\<bar> \<le> 2 ^ 1023" by (simp only: abs_exp_cancel)
  then have b: "\<not> rounds_to_inf (exp (- s / 800))" by (rule not_rounds_to_inf_small)
  have "\<bar>real_of_int t\<bar> \<le> real_of_int (10 ^ 300)"
    using assms(3) by (simp only: of_int_abs [symmetric] of_int_le_iff)
  then have "\<bar>real_of_int t / 10000\<bar> \<le> 10 ^ 300 / 10000" by simp
  also have "\<dots> \<le> (2::real) ^ 1023" by simp
  finally have c: "\<not> rounds_to_inf (real_of_int t / 10000)" by (rule not_rounds_to_inf_small)
  from a b c assms(4) show ?thesis by (simp add: valid_inputs_def)
qed

text \<open>A latency of minus two million milliseconds overflows the first exponential.\<close>

lemma stability_curve_overflow: "stability_curve (- 2000000) 0 0 = Inl OverflowError"
proof -
  have "(2::real) ^ 1024 \<le> 2 ^ 1333" by (rule power_increasing) simp_all
  also have "\<dots> \<le> exp 1 ^ 1333"
    using exp_ge_add_one_self [of "1::real"] by (intro power_mono) simp_all
  also have "\<dots> = exp (of_nat 1333 * 1)" by (rule exp_of_nat_mult [symmetric])
  also have "\<dots> \<le> exp (- (- 2000000) / 1500)" by simp
  finally have "(2::real) ^ 1024 - 2 ^ 970 \<le> \<bar>exp (- (- 2000000) / 1500)\<bar>"
    by (simp only: abs_exp_cancel) (simp add: algebra_simps)
  then have "rounds_to_inf (exp (- (- 2000000) / 1500))" by (simp only: rounds_to_inf_iff)
  then show ?thesis by (simp only: stability_curve_cases if_True)
qed

subsection \<open>What \<open>compute_score\<close> returns and raises\<close>

lemma compute_score_Inr:
  "stability_curve l s t = Inr st \<Longrightarrow>
   compute_score c l s t ec ep ef =
     Inr \<lparr> r_construct = key c, r_name = name c, r_category = category c,
           r_description = description c, latencyMs = l, syncMs = s, r_throughput = t,
           enableCommitments = ec, enableProofs = ep, enableFhe = ef,
           stabilityMultiplier = py_round st 4,
           finalScore = py_round (max 0 (min 1 (base_score c ec ep ef * st))) 4 \<rparr>"
  by (simp add: compute_score_def Let_def)

lemma compute_score_Inl:
  "stability_curve l s t = Inl e \<Longrightarrow> compute_score c l s t ec ep ef = Inl e"
  by (simp add: compute_score_def Let_def)

lemma base_score_flags_mono:
  assumes "ec \<longrightarrow> ec'" and "ep \<longrightarrow> ep'" and "ef \<longrightarrow> ef'"
  shows "base_score c ec ep ef \<le> base_score c ec' ep' ef'"
  using assms by (auto simp add: base_score_def Let_def)

subsection \<open>The catalog and the command line\<close>

lemma getitem_unknown: "k \<notin> set (keys d) \<Longrightarrow> getitem d k = Inl (KeyError k)"
  by (simp add: getitem_def keys_def map_of_eq_None_iff [THEN iffD2])

lemma parse_args_unknown:
  "k \<notin> set (keys CONSTRUCTS) \<Longrightarrow>
   parse_args (argv\<lparr>opt_construct := Some k\<rparr>) = Inl (SystemExit 2)"
  by (simp add: parse_args_def check_choices_def)

lemma stability_mono_latency:
  assumes "stability_curve l1 s t = Inr a" and "l1 \<le> l2"
  shows "\<exists>b. stability_curve l2 s t = Inr b \<and> b \<le> a"
proof -
  from assms(1) have v: "valid_inputs l1 s t"
    and a: "a = max 0 (min 1 ((exp (- l1 / 1500) + exp (- s / 800)
                          + 1 / (1 + real_of_int t / 10000)) / 3))"
    by (simp_all add: stability_curve_Inr_iff)
  have le: "exp (- l2 / 1500) \<le> exp (- l1 / 1500)" using assms(2) by simp
  then have "\<bar>exp (- l2 / 1500)\<bar> \<le> \<bar>exp (- l1 / 1500)\<bar>" by simp
  with v have "\<not> rounds_to_inf (exp (- l2 / 1500))"
    using not_rounds_to_inf_smaller by (simp only: valid_inputs_def) blast
  with v have v2: "valid_inputs l2 s t" by (simp add: valid_inputs_def)
  from le have "(exp (- l2 / 1500) + exp (- s / 800) + 1 / (1 + real_of_int t / 10000)) / 3
      \<le> (exp (- l1 / 1500) + exp (- s / 800) + 1 / (1 + real_of_int t / 10000)) / 3"
    by simp
  then show ?thesis unfolding a stability_curve_valid [OF v2] using clamp_unit_mono by blast
qed

lemma stability_mono_sync:
  assumes "stability_curve l s1 t = Inr a" and "s1 \<le> s2"
  shows "\<exists>b. stability_curve l s2 t = Inr b \<and> b \<le> a"
proof -
  from assms(1) have v: "valid_inputs l s1 t"
    and a: "a = max 0 (min 1 ((exp (- l / 1500) + exp (- s1 / 800)
                          + 1 / (1 + real_of_int t / 10000)) / 3))"
    by (simp_all add: stability_curve_Inr_iff)
  have le: "exp (- s2 / 800) \<le> exp (- s1 / 800)" using assms(2) by simp
  then have "\<bar>exp (- s2 / 800)\<bar> \<le> \<bar>exp (- s1 / 800)\<bar>" by simp
  with v have "\<not> rounds_to_inf (exp (- s2 / 800))"
    using not_rounds_to_inf_smaller by (simp only: valid_inputs_def) blast
  with v have v2: "valid_inputs l s2 t" by (simp add: valid_inputs_def)
  from le have "(exp (- l / 1500) + exp (- s2 / 800) + 1 / (1 + real_of_int t / 10000)) / 3
      \<le> (exp (- l / 1500) + exp (- s1 / 800) + 1 / (1 + real_of_int t / 10000)) / 3"
    by simp
  then show ?thesis unfolding a stability_curve_valid [OF v2] using clamp_unit_mono by blast
qed

text \<open>
  The throughput term \<open>1 / (1 + t / 10000)\<close> falls on each side of its pole at
  \<open>t = -10000\<close>, and jumps from negative to positive across it.
\<close>

lemma throughput_term_mono:
  assumes "t1 \<le> t2" and "- 10000 < t1 \<or> t2 < - 10000"
  shows "1 / (1 + real_of_int t2 / 10000) \<le> 1 / (1 + real_of_int t1 / 10000)"
proof -
  let ?d1 = "1 + real_of_int t1 / 10000" and ?d2 = "1 + real_of_int t2 / 10000"
  have le: "?d1 \<le> ?d2" using assms(1) by simp
  from assms(2) show ?thesis
  proof
    assume "- 10000 < t1"
    then have "real_of_int (- 10000) < real_of_int t1" by (simp only: of_int_less_iff)
    then have "0 < ?d1" by simp
    with le show ?thesis by (simp add: frac_le)
  next
    assume "t2 < - 10000"
    then have "real_of_int t2 < real_of_int (- 10000)" by (simp only: of_int_less_iff)
    then have "?d2 < 0" by simp
    with le have "inverse ?d2 \<le> inverse ?d1" by (rule le_imp_inverse_le_neg)
    then show ?thesis by (simp add: inverse_eq_divide)
  qed
qed

lemma stability_mono_throughput:
  assumes "stability_curve l s t1 = Inr a" and "stability_curve l s t2 = Inr b"
    and "t1 \<le> t2" and "- 10000 < t1 \<or> t2 < - 10000"
  shows "b \<le> a"
proof -
  from assms(1) have a: "a = max 0 (min 1 ((exp (- l / 1500) + exp (- s / 800)
                          + 1 / (1 + real_of_int t1 / 10000)) / 3))"
    by (simp add: stability_curve_Inr_iff)
  from assms(2) have b: "b = max 0 (min 1 ((exp (- l / 1500) + exp (- s / 800)
                          + 1 / (1 + real_of_int t2 / 10000)) / 3))"
    by (simp add: stability_curve_Inr_iff)
  from throughput_term_mono [OF assms(3,4)]
  have "(exp (- l / 1500) + exp (- s / 800) + 1 / (1 + real_of_int t2 / 10000)) / 3
      \<le> (exp (- l / 1500) + exp (- s / 800) + 1 / (1 + real_of_int t1 / 10000)) / 3"
    by simp
  then show ?thesis unfolding a b by (rule clamp_unit_mono)
qed

subsection \<open>Rounding to the nearest double\<close>

lemma fl_zero [simp]: "fl 0 = 0"
  by (simp add: fl_def)

lemma fl_eqI:
  assumes lo: "2 ^ 52 \<le> \<bar>x\<bar> * 2 ^ k" and hi: "\<bar>x\<bar> * 2 ^ k < 2 ^ 53"
    and k: "k \<le> 1074" and m: "round_half_even (x * 2 ^ k) = m"
  shows "fl x = real_of_int m / 2 ^ k"
proof -
  have x: "x \<noteq> 0" using lo by auto
  have pk: "(2::real) powr (- real k) = 1 / 2 ^ k"
    by (simp add: powr_minus powr_realpow inverse_eq_divide)
  have p52: "(2::real) powr (52 - real k) = 2 ^ 52 / 2 ^ k"
  proof -
    have "(2::real) powr (52 - real k) = 2 powr (52 + (- real k))" by simp
    also have "\<dots> = 2 powr 52 * 2 powr (- real k)" by (rule powr_add)
    also have "\<dots> = 2 ^ 52 / 2 ^ k"
      by (simp add: powr_minus powr_realpow inverse_eq_divide)
    finally show ?thesis .
  qed
  have p53: "(2::real) powr (53 - real k) = 2 ^ 53 / 2 ^ k"
  proof -
    have "(2::real) powr (53 - real k) = 2 powr (53 + (- real k))" by simp
    also have "\<dots> = 2 powr 53 * 2 powr (- real k)" by (rule powr_add)
    also have "\<dots> = 2 ^ 53 / 2 ^ k"
      by (simp add: powr_minus powr_realpow inverse_eq_divide)
    finally show ?thesis .
  qed
  have A: "2 ^ 52 / 2 ^ k \<le> \<bar>x\<bar>" using lo by (simp add: field_simps)
  have B: "\<bar>x\<bar> < 2 ^ 53 / 2 ^ k" using hi by (simp add: field_simps)
  have "\<lfloor>log 2 \<bar>x\<bar>\<rfloor> = 52 - int k"
    using floor_log_eq_powr_iff [of "\<bar>x\<bar>" 2 "52 - int k"] x A B
    by (simp add: p52 p53 del: power_numeral)
  moreover have "max (52 - int k) (- 1022) = 52 - int k" using k by simp
  ultimately have "fl x = real_of_int (round_half_even (x / (2 powr real_of_int (- int k))))
      * 2 powr real_of_int (- int k)"
    using x by (simp add: fl_def Let_def)
  then show ?thesis by (simp add: pk m)
qed

lemma fl_unit:
  assumes "0 \<le> x" and "x \<le> 19 / 20"
  shows "0 \<le> fl x \<and> fl x \<le> 1"
proof (cases "x = 0")
  case True
  then show ?thesis by simp
next
  case False
  with assms have pos: "0 < x" by simp
  define e where "e = max \<lfloor>log 2 \<bar>x\<bar>\<rfloor> (- 1022)"
  define q where "q = 2 powr real_of_int (e - 52)"
  have fl: "fl x = real_of_int (round_half_even (x / q)) * q"
    using False by (simp add: fl_def Let_def e_def q_def)
  have qpos: "0 < q" by (simp add: q_def)
  have "log 2 \<bar>x\<bar> < 0" using pos assms(2) by simp
  then have "\<lfloor>log 2 \<bar>x\<bar>\<rfloor> \<le> - 1" by linarith
  then have "e \<le> - 1" by (simp add: e_def)
  then have "real_of_int (e - 52) \<le> - 53" by simp
  then have "q \<le> 2 powr (- 53)" unfolding q_def by (intro powr_mono) simp_all
  also have "\<dots> = 1 / 2 ^ 53" by (simp add: powr_minus inverse_eq_divide)
  also have "\<dots> \<le> 1 / 20" by simp
  finally have qle: "q \<le> 1 / 20" .
  have "0 \<le> x / q" using pos qpos by simp
  then have "0 \<le> \<lfloor>x / q\<rfloor>" by simp
  with round_half_even_ge_floor [of "x / q"] have "0 \<le> round_half_even (x / q)" by linarith
  then have lower: "0 \<le> fl x" using qpos by (simp add: fl)
  have "real_of_int (round_half_even (x / q)) \<le> real_of_int (\<lfloor>x / q\<rfloor> + 1)"
    using round_half_even_le_floor_Suc [of "x / q"] by (simp only: of_int_le_iff)
  also have "\<dots> \<le> x / q + 1" by simp
  finally have "real_of_int (round_half_even (x / q)) * q \<le> (x / q + 1) * q"
    using qpos by (simp only: mult_le_cancel_right) simp
  also have "\<dots> = x + q" using qpos by (simp add: field_simps)
  also have "\<dots> \<le> 1" using assms(2) qle by simp
  finally have "fl x \<le> 1" by (simp add: fl)
  with lower show ?thesis by simp
qed

lemma fl_one: "fl 1 = 1"
  by (rule fl_eqI [where k = 52 and m = "2 ^ 52", THEN trans])
     (simp_all add: round_half_even_def)

text \<open>
  To evaluate \<open>fl x\<close>: scale \<open>x\<close> by the power of two that brings it between \<open>2\<^sup>5\<^sup>2\<close> and
  \<open>2\<^sup>5\<^sup>3\<close>, round to the nearest integer and scale back (\<open>fl_eqI\<close>).
\<close>

lemma fl_nonneg: "0 \<le> x \<Longrightarrow> 0 \<le> fl x"
proof (cases "x = 0")
  case True
  then show ?thesis by simp
next
  case False
  assume "0 \<le> x"
  define q where "q = 2 powr real_of_int (max \<lfloor>log 2 \<bar>x\<bar>\<rfloor> (- 1022) - 52)"
  have qpos: "0 < q" by (simp add: q_def)
  have fl: "fl x = real_of_int (round_half_even (x / q)) * q"
    using False by (simp add: fl_def Let_def q_def)
  have "0 \<le> x / q" using \<open>0 \<le> x\<close> qpos by simp
  then have "0 \<le> \<lfloor>x / q\<rfloor>" by simp
  with round_half_even_ge_floor [of "x / q"] have "0 \<le> round_half_even (x / q)" by linarith
  then show ?thesis using qpos by (simp add: fl)
qed

lemma fl_pos:
  assumes "1 \<le> x"
  shows "0 < fl x"
proof -
  define e where "e = max \<lfloor>log 2 \<bar>x\<bar>\<rfloor> (- 1022)"
  define q where "q = 2 powr real_of_int (e - 52)"
  have x: "x \<noteq> 0" "\<bar>x\<bar> = x" "0 < x" using assms by simp_all
  have qpos: "0 < q" by (simp add: q_def)
  have fl: "fl x = real_of_int (round_half_even (x / q)) * q"
    using x(1) by (simp add: fl_def Let_def q_def e_def)
  have "0 \<le> log 2 x" using assms by simp
  then have "0 \<le> \<lfloor>log 2 x\<rfloor>" by simp
  then have e: "e = \<lfloor>log 2 x\<rfloor>" by (simp add: e_def x(2))
  have "real_of_int (e - 52) \<le> log 2 x" unfolding e by linarith
  then have "q \<le> 2 powr log 2 x" unfolding q_def by (intro powr_mono) simp_all
  also have "\<dots> = x" using x(3) by simp
  finally have "1 \<le> x / q" using qpos by (simp add: field_simps)
  then have "1 \<le> \<lfloor>x / q\<rfloor>" by linarith
  with round_half_even_ge_floor [of "x / q"] have "1 \<le> round_half_even (x / q)" by linarith
  then have "0 < real_of_int (round_half_even (x / q))" by simp
  then show ?thesis using qpos by (simp add: fl)
qed

subsection \<open>The operations of the catalog in binary64\<close>

text \<open>
  The literals of the program, the products and sums of every base score of the catalog,
  and the operations of the stability curve at latency and sync time zero for the
  throughputs 14000, 30000 and 39990000, each evaluated from the definition of \<open>fl\<close>.
\<close>

lemma fl_eval_1 [fl_evals]: "fl (81 / 100) = 1823957849085051 / 2251799813685248"
  by (rule fl_eqI [where k = 53 and m = "7295831396340204", THEN trans])
     (simp_all add: round_half_even_def)

lemma fl_eval_2 [fl_evals]: "fl (2 / 5) = 3602879701896397 / 9007199254740992"
  by (rule fl_eqI [where k = 54 and m = "7205759403792794", THEN trans])
     (simp_all add: round_half_even_def)

lemma fl_eval_3 [fl_evals]: "fl (6571500711583142014496043461247 / 20282409603651670423947251286016) = 1459166279268041 / 4503599627370496"
  by (rule fl_eqI [where k = 54 and m = "5836665117072164", THEN trans])
     (simp_all add: round_half_even_def)

lemma fl_eval_4 [fl_evals]: "fl (47 / 50) = 2116691824864133 / 2251799813685248"
  by (rule fl_eqI [where k = 53 and m = "8466767299456532", THEN trans])
     (simp_all add: round_half_even_def)

lemma fl_eval_5 [fl_evals]: "fl (3 / 10) = 5404319552844595 / 18014398509481984"
  by (rule fl_eqI [where k = 54 and m = "5404319552844595", THEN trans])
     (simp_all add: round_half_even_def)

lemma fl_eval_6 [fl_evals]: "fl (11439279016459541047249538411135 / 40564819207303340847894502572032) = 5080060379673919 / 18014398509481984"
  by (rule fl_eqI [where k = 54 and m = "5080060379673919", THEN trans])
     (simp_all add: round_half_even_def)

lemma fl_eval_7 [fl_evals]: "fl (10916725496746083 / 18014398509481984) = 2729181374186521 / 4503599627370496"
  by (rule fl_eqI [where k = 53 and m = "5458362748373042", THEN trans])
     (simp_all add: round_half_even_def)

lemma fl_eval_8 [fl_evals]: "fl (29 / 50) = 5224175567749775 / 9007199254740992"
  by (rule fl_eqI [where k = 53 and m = "5224175567749775", THEN trans])
     (simp_all add: round_half_even_def)

lemma fl_eval_9 [fl_evals]: "fl (28233114168283122239744421216125 / 162259276829213363391578010288128) = 3134505340649865 / 18014398509481984"
  by (rule fl_eqI [where k = 55 and m = "6269010681299730", THEN trans])
     (simp_all add: round_half_even_def)

lemma fl_eval_10 [fl_evals]: "fl (14051230837395949 / 18014398509481984) = 3512807709348987 / 4503599627370496"
  by (rule fl_eqI [where k = 53 and m = "7025615418697974", THEN trans])
     (simp_all add: round_half_even_def)

lemma fl_eval_11 [fl_evals]: "fl (1 / 20) = 3602879701896397 / 72057594037927936"
  by (rule fl_eqI [where k = 57 and m = "7205759403792794", THEN trans])
     (simp_all add: round_half_even_def)

lemma fl_eval_12 [fl_evals]: "fl (59807803051480189 / 72057594037927936) = 467248461339689 / 562949953421312"
  by (rule fl_eqI [where k = 53 and m = "7475975381435024", THEN trans])
     (simp_all add: round_half_even_def)

lemma fl_eval_13 [fl_evals]: "fl (7 / 100) = 1261007895663739 / 18014398509481984"
  by (rule fl_eqI [where k = 56 and m = "5044031582654956", THEN trans])
     (simp_all add: round_half_even_def)

lemma fl_eval_14 [fl_evals]: "fl (15312238733059687 / 18014398509481984) = 1914029841632461 / 2251799813685248"
  by (rule fl_eqI [where k = 53 and m = "7656119366529844", THEN trans])
     (simp_all add: round_half_even_def)

lemma fl_eval_15 [fl_evals]: "fl (64851834634135149 / 72057594037927936) = 4053239664633447 / 4503599627370496"
  by (rule fl_eqI [where k = 53 and m = "8106479329266894", THEN trans])
     (simp_all add: round_half_even_def)

lemma fl_eval_16 [fl_evals]: "fl (1 / 25) = 5764607523034235 / 144115188075855872"
  by (rule fl_eqI [where k = 57 and m = "5764607523034235", THEN trans])
     (simp_all add: round_half_even_def)

lemma fl_eval_17 [fl_evals]: "fl (118174454222201819 / 144115188075855872) = 3692951694443807 / 4503599627370496"
  by (rule fl_eqI [where k = 53 and m = "7385903388887614", THEN trans])
     (simp_all add: round_half_even_def)

lemma fl_eval_18 [fl_evals]: "fl (62690106812997309 / 72057594037927936) = 979532918953083 / 1125899906842624"
  by (rule fl_eqI [where k = 53 and m = "7836263351624664", THEN trans])
     (simp_all add: round_half_even_def)

lemma fl_eval_19 [fl_evals]: "fl (16032814673438967 / 18014398509481984) = 2004101834179871 / 2251799813685248"
  by (rule fl_eqI [where k = 53 and m = "8016407336719484", THEN trans])
     (simp_all add: round_half_even_def)

lemma fl_eval_20 [fl_evals]: "fl (67734138395652269 / 72057594037927936) = 4233383649728267 / 4503599627370496"
  by (rule fl_eqI [where k = 53 and m = "8466767299456534", THEN trans])
     (simp_all add: round_half_even_def)

lemma fl_eval_21 [fl_evals]: "fl (89 / 100) = 8016407336719483 / 9007199254740992"
  by (rule fl_eqI [where k = 53 and m = "8016407336719483", THEN trans])
     (simp_all add: round_half_even_def)

lemma fl_eval_22 [fl_evals]: "fl (28882151275599980719327917402751 / 81129638414606681695789005144064) = 6413125869375587 / 18014398509481984"
  by (rule fl_eqI [where k = 54 and m = "6413125869375587", THEN trans])
     (simp_all add: round_half_even_def)

lemma fl_eval_23 [fl_evals]: "fl (87 / 100) = 7836263351624663 / 9007199254740992"
  by (rule fl_eqI [where k = 53 and m = "7836263351624663", THEN trans])
     (simp_all add: round_half_even_def)

lemma fl_eval_24 [fl_evals]: "fl (42349671252424686061776408246485 / 162259276829213363391578010288128) = 2350879005487399 / 9007199254740992"
  by (rule fl_eqI [where k = 54 and m = "4701758010974798", THEN trans])
     (simp_all add: round_half_even_def)

lemma fl_eval_25 [fl_evals]: "fl (11114883880350385 / 18014398509481984) = 694680242521899 / 1125899906842624"
  by (rule fl_eqI [where k = 53 and m = "5557441940175192", THEN trans])
     (simp_all add: round_half_even_def)

lemma fl_eval_26 [fl_evals]: "fl (21 / 50) = 7566047373982433 / 18014398509481984"
  by (rule fl_eqI [where k = 54 and m = "7566047373982433", THEN trans])
     (simp_all add: round_half_even_def)

lemma fl_eval_27 [fl_evals]: "fl (40889337760961764548258708999635 / 324518553658426726783156020576256) = 1134907106097365 / 9007199254740992"
  by (rule fl_eqI [where k = 55 and m = "4539628424389460", THEN trans])
     (simp_all add: round_half_even_def)

lemma fl_eval_28 [fl_evals]: "fl (6692349046272557 / 9007199254740992) = 6692349046272557 / 9007199254740992"
  by (rule fl_eqI [where k = 53 and m = "6692349046272557", THEN trans])
     (simp_all add: round_half_even_def)

lemma fl_eval_29 [fl_evals]: "fl (57141672072076853 / 72057594037927936) = 7142709009009607 / 9007199254740992"
  by (rule fl_eqI [where k = 53 and m = "7142709009009607", THEN trans])
     (simp_all add: round_half_even_def)

lemma fl_eval_30 [fl_evals]: "fl (14645705988208853 / 18014398509481984) = 3661426497052213 / 4503599627370496"
  by (rule fl_eqI [where k = 53 and m = "7322852994104426", THEN trans])
     (simp_all add: round_half_even_def)

lemma fl_eval_31 [fl_evals]: "fl (62185703654731805 / 72057594037927936) = 1943303239210369 / 2251799813685248"
  by (rule fl_eqI [where k = 53 and m = "7773212956841476", THEN trans])
     (simp_all add: round_half_even_def)

lemma fl_eval_32 [fl_evals]: "fl (112842192263395147 / 144115188075855872) = 7052637016462197 / 9007199254740992"
  by (rule fl_eqI [where k = 53 and m = "7052637016462197", THEN trans])
     (simp_all add: round_half_even_def)

lemma fl_eval_33 [fl_evals]: "fl (60023975833593973 / 72057594037927936) = 7502996979199247 / 9007199254740992"
  by (rule fl_eqI [where k = 53 and m = "7502996979199247", THEN trans])
     (simp_all add: round_half_even_def)

lemma fl_eval_34 [fl_evals]: "fl (15366281928588133 / 18014398509481984) = 3841570482147033 / 4503599627370496"
  by (rule fl_eqI [where k = 53 and m = "7683140964294066", THEN trans])
     (simp_all add: round_half_even_def)

lemma fl_eval_35 [fl_evals]: "fl (65068007416248925 / 72057594037927936) = 2033375231757779 / 2251799813685248"
  by (rule fl_eqI [where k = 53 and m = "8133500927031116", THEN trans])
     (simp_all add: round_half_even_def)

lemma fl_eval_36 [fl_evals]: "fl (97 / 100) = 4368491638549381 / 4503599627370496"
  by (rule fl_eqI [where k = 53 and m = "8736983277098762", THEN trans])
     (simp_all add: round_half_even_def)

lemma fl_eval_37 [fl_evals]: "fl (15739149852433696690335830480257 / 40564819207303340847894502572032) = 3494793310839505 / 9007199254740992"
  by (rule fl_eqI [where k = 54 and m = "6989586621679010", THEN trans])
     (simp_all add: round_half_even_def)

lemma fl_eval_38 [fl_evals]: "fl (51 / 100) = 2296835809958953 / 4503599627370496"
  by (rule fl_eqI [where k = 53 and m = "4593671619917906", THEN trans])
     (simp_all add: round_half_even_def)

lemma fl_eval_39 [fl_evals]: "fl (12412834677434822056261337909035 / 81129638414606681695789005144064) = 5512405943901487 / 36028797018963968"
  by (rule fl_eqI [where k = 55 and m = "5512405943901487", THEN trans])
     (simp_all add: round_half_even_def)

lemma fl_eval_40 [fl_evals]: "fl (19491579187259507 / 36028797018963968) = 4872894796814877 / 9007199254740992"
  by (rule fl_eqI [where k = 53 and m = "4872894796814877", THEN trans])
     (simp_all add: round_half_even_def)

lemma fl_eval_41 [fl_evals]: "fl (18 / 25) = 3242591731706757 / 4503599627370496"
  by (rule fl_eqI [where k = 53 and m = "6485183463413514", THEN trans])
     (simp_all add: round_half_even_def)

lemma fl_eval_42 [fl_evals]: "fl (17524001897555041949253732428415 / 81129638414606681695789005144064) = 7782220156096217 / 36028797018963968"
  by (rule fl_eqI [where k = 55 and m = "7782220156096217", THEN trans])
     (simp_all add: round_half_even_def)

lemma fl_eval_43 [fl_evals]: "fl (27273799343355725 / 36028797018963968) = 6818449835838931 / 9007199254740992"
  by (rule fl_eqI [where k = 53 and m = "6818449835838931", THEN trans])
     (simp_all add: round_half_even_def)

lemma fl_eval_44 [fl_evals]: "fl (58150478388607845 / 72057594037927936) = 7268809798575981 / 9007199254740992"
  by (rule fl_eqI [where k = 53 and m = "7268809798575981", THEN trans])
     (simp_all add: round_half_even_def)

lemma fl_eval_45 [fl_evals]: "fl (14897907567341601 / 18014398509481984) = 465559611479425 / 562949953421312"
  by (rule fl_eqI [where k = 53 and m = "7448953783670800", THEN trans])
     (simp_all add: round_half_even_def)

lemma fl_eval_46 [fl_evals]: "fl (63194509971262797 / 72057594037927936) = 3949656873203925 / 4503599627370496"
  by (rule fl_eqI [where k = 53 and m = "7899313746407850", THEN trans])
     (simp_all add: round_half_even_def)

lemma fl_eval_47 [fl_evals]: "fl (114859804896457131 / 144115188075855872) = 7178737806028571 / 9007199254740992"
  by (rule fl_eqI [where k = 53 and m = "7178737806028571", THEN trans])
     (simp_all add: round_half_even_def)

lemma fl_eval_48 [fl_evals]: "fl (61032782150124965 / 72057594037927936) = 7629097768765621 / 9007199254740992"
  by (rule fl_eqI [where k = 53 and m = "7629097768765621", THEN trans])
     (simp_all add: round_half_even_def)

lemma fl_eval_49 [fl_evals]: "fl (15618483507720881 / 18014398509481984) = 976155219232555 / 1125899906842624"
  by (rule fl_eqI [where k = 53 and m = "7809241753860440", THEN trans])
     (simp_all add: round_half_even_def)

lemma fl_eval_50 [fl_evals]: "fl (66076813732779917 / 72057594037927936) = 4129800858298745 / 4503599627370496"
  by (rule fl_eqI [where k = 53 and m = "8259601716597490", THEN trans])
     (simp_all add: round_half_even_def)

lemma fl_eval_51 [fl_evals]: "fl (7 / 5) = 3152519739159347 / 2251799813685248"
  by (rule fl_eqI [where k = 52 and m = "6305039478318694", THEN trans])
     (simp_all add: round_half_even_def)

lemma fl_eval_52 [fl_evals]: "fl (5404319552844595 / 2251799813685248) = 5404319552844595 / 2251799813685248"
  by (rule fl_eqI [where k = 51 and m = "5404319552844595", THEN trans])
     (simp_all add: round_half_even_def)

lemma fl_eval_53 [fl_evals]: "fl (2251799813685248 / 5404319552844595) = 7505999378950827 / 18014398509481984"
  by (rule fl_eqI [where k = 54 and m = "7505999378950827", THEN trans])
     (simp_all add: round_half_even_def)

lemma fl_eval_54 [fl_evals]: "fl (2) = 2"
  by (rule fl_eqI [where k = 51 and m = "4503599627370496", THEN trans])
     (simp_all add: round_half_even_def)

lemma fl_eval_55 [fl_evals]: "fl (43534796397914795 / 18014398509481984) = 5441849549739349 / 2251799813685248"
  by (rule fl_eqI [where k = 51 and m = "5441849549739349", THEN trans])
     (simp_all add: round_half_even_def)

lemma fl_eval_56 [fl_evals]: "fl (5441849549739349 / 6755399441055744) = 7255799399652465 / 9007199254740992"
  by (rule fl_eqI [where k = 53 and m = "7255799399652465", THEN trans])
     (simp_all add: round_half_even_def)

lemma fl_eval_57 [fl_evals]: "fl (51172519430013160909765610365605 / 81129638414606681695789005144064) = 710161366240985 / 1125899906842624"
  by (rule fl_eqI [where k = 53 and m = "5681290929927880", THEN trans])
     (simp_all add: round_half_even_def)

lemma fl_eval_58 [fl_evals]: "fl (3) = 3"
  by (rule fl_eqI [where k = 51 and m = "6755399441055744", THEN trans])
     (simp_all add: round_half_even_def)

lemma fl_eval_59 [fl_evals]: "fl (4) = 4"
  by (rule fl_eqI [where k = 50 and m = "4503599627370496", THEN trans])
     (simp_all add: round_half_even_def)

lemma fl_eval_60 [fl_evals]: "fl (1 / 4) = 1 / 4"
  by (rule fl_eqI [where k = 54 and m = "4503599627370496", THEN trans])
     (simp_all add: round_half_even_def)

lemma fl_eval_61 [fl_evals]: "fl (9 / 4) = 9 / 4"
  by (rule fl_eqI [where k = 51 and m = "5066549580791808", THEN trans])
     (simp_all add: round_half_even_def)

lemma fl_eval_62 [fl_evals]: "fl (3 / 4) = 3 / 4"
  by (rule fl_eqI [where k = 53 and m = "6755399441055744", THEN trans])
     (simp_all add: round_half_even_def)

lemma fl_eval_63 [fl_evals]: "fl (20077047138817671 / 36028797018963968) = 2509630892352209 / 4503599627370496"
  by (rule fl_eqI [where k = 53 and m = "5019261784704418", THEN trans])
     (simp_all add: round_half_even_def)

lemma fl_eval_64 [fl_evals]: "fl (3999) = 3999"
  by (rule fl_eqI [where k = 41 and m = "8793893998952448", THEN trans])
     (simp_all add: round_half_even_def)

lemma fl_eval_65 [fl_evals]: "fl (4000) = 4000"
  by (rule fl_eqI [where k = 41 and m = "8796093022208000", THEN trans])
     (simp_all add: round_half_even_def)

lemma fl_eval_66 [fl_evals]: "fl (1 / 4000) = 1152921504606847 / 4611686018427387904"
  by (rule fl_eqI [where k = 64 and m = "4611686018427388", THEN trans])
     (simp_all add: round_half_even_def)

lemma fl_eval_67 [fl_evals]: "fl (9224524958359382655 / 4611686018427387904) = 4504162577323917 / 2251799813685248"
  by (rule fl_eqI [where k = 51 and m = "4504162577323917", THEN trans])
     (simp_all add: round_half_even_def)

lemma fl_eval_68 [fl_evals]: "fl (1501387525774639 / 2251799813685248) = 1501387525774639 / 2251799813685248"
  by (rule fl_eqI [where k = 53 and m = "6005550103098556", THEN trans])
     (simp_all add: round_half_even_def)

lemma fl_eval_69 [fl_evals]: "fl (5274085675261552804349564940693 / 10141204801825835211973625643008) = 2342164540208437 / 4503599627370496"
  by (rule fl_eqI [where k = 53 and m = "4684329080416874", THEN trans])
     (simp_all add: round_half_even_def)

lemma fl_eval_70 [fl_evals]: "fl (743 / 1000) = 6692349046272557 / 9007199254740992"
  by (rule fl_eqI [where k = 53 and m = "6692349046272557", THEN trans])
     (simp_all add: round_half_even_def)

lemma fl_eval_71 [fl_evals]: "fl (4700000000000001 / 5000000000000000) = 4233383649728267 / 4503599627370496"
  by (rule fl_eqI [where k = 53 and m = "8466767299456534", THEN trans])
     (simp_all add: round_half_even_def)

lemma fl_eval_72 [fl_evals]: "fl (- 1) = - 1"
  by (rule fl_eqI [where k = 52 and m = "- 4503599627370496", THEN trans])
     (simp_all add: round_half_even_def)

subsection \<open>What the binary64 functions return and raise\<close>

lemma base_score_f64_spec: "base_score_f64 c ec ep ef = spec_base_f64 c ec ep ef"
  by (simp add: base_score_f64_def spec_base_f64_def bonus_f64_def Let_def)

lemma compute_score_f64_Inr:
  "stability_curve_f64 libm_exp l s t = Inr st \<Longrightarrow>
   compute_score_f64 libm_exp c l s t ec ep ef =
     Inr \<lparr> r_construct = key c, r_name = name c, r_category = category c,
           r_description = description c, latencyMs = l, syncMs = s, r_throughput = t,
           enableCommitments = ec, enableProofs = ep, enableFhe = ef,
           stabilityMultiplier = py_round st 4,
           finalScore = py_round (max 0 (min 1 (fl (base_score_f64 c ec ep ef * st)))) 4 \<rparr>"
  by (simp add: compute_score_f64_def Let_def)

lemma compute_score_f64_Inl:
  "stability_curve_f64 libm_exp l s t = Inl e \<Longrightarrow>
   compute_score_f64 libm_exp c l s t ec ep ef = Inl e"
  by (simp add: compute_score_f64_def Let_def)

lemma stability_curve_f64_range:
  "stability_curve_f64 libm_exp l s t = Inr st \<Longrightarrow> 0 \<le> st \<and> st \<le> 1"
  by (auto simp add: stability_curve_f64_def seq_def split: sum.splits)

lemma stability_curve_f64_pole:
  "libm_exp 0 = Some 1 \<Longrightarrow> stability_curve_f64 libm_exp 0 0 (- 10000) = Inl ZeroDivisionError"
  by (simp add: stability_curve_f64_def math_exp_f64_def int_truediv_f64_def float_div_f64_def
      not_rounds_to_inf_le_one fl_evals)

lemma libm_nearest_zero: "libm_nearest 0 = Some 1"
  by (simp add: libm_nearest_def not_rounds_to_inf_le_one fl_one)

lemma stability_curve_f64_14000:
  "stability_curve_f64 libm_nearest 0 0 14000 = Inr (7255799399652465 / 9007199254740992)"
  by (simp add: stability_curve_f64_def math_exp_f64_def libm_nearest_zero int_truediv_f64_def
      float_div_f64_def not_rounds_to_inf_small fl_evals)

lemma stability_curve_f64_30000:
  "stability_curve_f64 libm_nearest 0 0 30000 = Inr (3 / 4)"
  by (simp add: stability_curve_f64_def math_exp_f64_def libm_nearest_zero int_truediv_f64_def
      float_div_f64_def not_rounds_to_inf_small fl_evals)

lemma catalog_base_f64_bounds:
  "(k, c) \<in> set CONSTRUCTS \<Longrightarrow>
   fl 0.743 \<le> base_score_f64 c ec ep ef \<and>
   base_score_f64 c ec ep ef \<le> fl 0.9400000000000002"
  by (cases ec; cases ep; cases ef)
     (auto simp add: CONSTRUCTS_def base_score_f64_def Let_def fl_evals)

lemma catalog_base_f64_max:
  "base_score_f64 (snd (CONSTRUCTS ! 0)) True True True = fl 0.9400000000000002"
  by (simp add: base_score_f64_def CONSTRUCTS_def Let_def fl_evals)

lemma catalog_base_f64_min:
  "base_score_f64 (snd (CONSTRUCTS ! 1)) False False False = fl 0.743"
  by (simp add: base_score_f64_def CONSTRUCTS_def Let_def fl_evals)

text \<open>
  For a throughput from 0 to \<open>10\<^sup>3\<^sup>0\<^sup>0\<close> nothing raises unless the library's exponential
  overflows.
\<close>

lemma stability_curve_f64_returns:
  assumes "libm_exp (fl (- l / 1500)) = Some a" and "libm_exp (fl (- s / 800)) = Some b"
    and "0 \<le> t" and "t \<le> 10 ^ 300"
  shows "\<exists>st. stability_curve_f64 libm_exp l s t = Inr st"
proof -
  have "\<bar>t\<bar> \<le> 10 ^ 300" using assms(3,4) by simp
  then have "\<bar>real_of_int t\<bar> \<le> real_of_int (10 ^ 300)"
    by (simp only: of_int_abs [symmetric] of_int_le_iff)
  then have "\<bar>real_of_int t / 10000\<bar> \<le> 10 ^ 300 / 10000" by simp
  also have "\<dots> \<le> (2::real) ^ 1023" by simp
  finally have nr: "\<not> rounds_to_inf (real_of_int t / 10000)" by (rule not_rounds_to_inf_small)
  have "0 \<le> real_of_int t / 10000" using assms(3) by simp
  then have "0 \<le> fl (real_of_int t / 10000)" by (rule fl_nonneg)
  then have "1 \<le> 1 + fl (real_of_int t / 10000)" by simp
  then have "0 < fl (1 + fl (real_of_int t / 10000))" by (rule fl_pos)
  then have nz: "fl (1 + fl (real_of_int t / 10000)) \<noteq> 0" by simp
  show ?thesis
    using assms(1,2) nr nz
    by (simp add: stability_curve_f64_def math_exp_f64_def int_truediv_f64_def float_div_f64_def)
qed

text \<open>
  At throughput 39990000, latency and sync time zero, the exact stability is the tie
  \<open>0.66675\<close>; the double the program computes is below it and the multiplier returned is
  \<open>0.6667\<close>.
\<close>

lemma stability_multiplier_f64_example:
  "\<exists>r. compute_score_f64 libm_nearest (snd (CONSTRUCTS ! 0)) 0 0 39990000 False False False = Inr r
       \<and> stabilityMultiplier r = 0.6667"
proof -
  have st: "stability_curve_f64 libm_nearest 0 0 39990000
      = Inr (1501387525774639 / 2251799813685248)"
    by (simp add: stability_curve_f64_def math_exp_f64_def libm_nearest_zero int_truediv_f64_def
        float_div_f64_def not_rounds_to_inf_small fl_evals)
  have "py_round (1501387525774639 / 2251799813685248) 4 = 0.6667"
    by (simp add: py_round_def round_half_even_def)
  then show ?thesis by (simp add: compute_score_f64_Inr [OF st])
qed

text \<open>
  In the exact reading the score of \<open>zama-fhe\<close> at throughput 14000 with commitments is the
  tie \<open>0.63075\<close>, which rounds to \<open>0.6308\<close>.
\<close>

lemma compute_score_exact_reading:
  "\<exists>r. compute_score (snd (CONSTRUCTS ! 1)) 0 0 14000 True False False = Inr r \<and>
       finalScore r = 0.6308"
proof -
  have st: "stability_curve 0 0 14000 = Inr (29 / 36)"
    by (simp add: stability_curve_cases not_rounds_to_inf_small)
  have "py_round (max 0 (min 1 (base_score (snd (CONSTRUCTS ! 1)) True False False * (29 / 36)))) 4
      = 0.6308"
    by (simp add: base_score_def CONSTRUCTS_def Let_def py_round_def round_half_even_def)
  then show ?thesis by (simp add: compute_score_Inr [OF st])
qed

section \<open>The claims\<close>

subsection \<open>The score formula\<close>

text \<open>
  C1 (as amended): for every construct, every combination of the three flags and every
  runtime input on which the stability function raises nothing and returns the double
  \<open>st\<close>, \<open>compute_score\<close> returns a result whose \<open>finalScore\<close> is \<open>clamp(base * st, 0, 1)\<close>
  rounded to 4 decimal places, where \<open>base\<close> is the weighted sum \<open>0.40, 0.30, 0.30\<close> of the
  three attributes plus \<open>0.04\<close>, \<open>0.07\<close> and \<open>0.05\<close> for the enabled flags, every literal,
  product and sum being rounded to the nearest double.
\<close>

theorem compute_score_formula:
  "stability_curve_f64 libm_exp l s t = Inr st \<Longrightarrow>
   \<exists>r. compute_score_f64 libm_exp c l s t ec ep ef = Inr r \<and>
       finalScore r = py_round (clamp (fl (spec_base_f64 c ec ep ef * st)) 0 1) 4"
  by (simp add: compute_score_f64_Inr base_score_f64_spec clamp_max_min)

text \<open>
  \<open>zama-fhe\<close> at latency and sync time zero, throughput 14000, commitments enabled: the
  stability is the double \<open>0.8055555555555555\<close>, the base the double \<open>0.783\<close>, their
  rounded product lies just below \<open>0.63075\<close> and the score is \<open>0.6307\<close>.
\<close>

theorem compute_score_formula_witness:
  "stability_curve_f64 libm_nearest 0 0 14000 = Inr (7255799399652465 / 9007199254740992) \<and>
   (\<exists>r. compute_score_f64 libm_nearest (snd (CONSTRUCTS ! 1)) 0 0 14000 True False False = Inr r \<and>
        finalScore r = 0.6307)"
proof -
  let ?c = "snd (CONSTRUCTS ! 1)"
  let ?st = "7255799399652465 / 9007199254740992 :: real"
  have base: "spec_base_f64 ?c True False False = 7052637016462197 / 9007199254740992"
    by (simp add: spec_base_f64_def bonus_f64_def CONSTRUCTS_def fl_evals)
  have prod: "fl (7052637016462197 / 9007199254740992 * ?st)
      = 710161366240985 / 1125899906842624"
    by (simp add: fl_evals)
  have cl: "clamp (710161366240985 / 1125899906842624) 0 1
      = 710161366240985 / 1125899906842624"
    by (simp add: clamp_def)
  have rnd: "py_round (710161366240985 / 1125899906842624) 4 = 0.6307"
    by (simp add: py_round_def round_half_even_def)
  from compute_score_formula [OF stability_curve_f64_14000, of ?c True False False]
  obtain r where "compute_score_f64 libm_nearest ?c 0 0 14000 True False False = Inr r"
    and "finalScore r = py_round (clamp (fl (spec_base_f64 ?c True False False * ?st)) 0 1) 4"
    by blast
  then have "compute_score_f64 libm_nearest ?c 0 0 14000 True False False = Inr r
      \<and> finalScore r = 0.6307"
    by (simp only: base prod cl rnd)
  with stability_curve_f64_14000 show ?thesis by blast
qed

text \<open>
  With throughput \<open>-10000\<close> the divisor \<open>1 + throughput / 10000\<close> is zero and
  \<open>compute_score\<close> returns no result: the division raises.
\<close>

theorem compute_score_formula_counterexample:
  "compute_score_f64 libm_nearest (snd (CONSTRUCTS ! 0)) 0 0 (- 10000) True True True
     = Inl ZeroDivisionError"
  by (rule compute_score_f64_Inl)
     (rule stability_curve_f64_pole [where libm_exp = libm_nearest, OF libm_nearest_zero])

subsection \<open>The stability formula\<close>




subsection \<open>Ranges\<close>

text \<open>
  C3: whatever \<open>stability_curve\<close> returns lies in \<open>[0,1]\<close>, and so do the \<open>finalScore\<close> and
  the \<open>stabilityMultiplier\<close> of whatever \<open>compute_score\<close> returns; on the valid inputs both
  functions do return.
\<close>

theorem scores_in_unit_interval:
  "(\<forall>st. stability_curve l s t = Inr st \<longrightarrow> 0 \<le> st \<and> st \<le> 1) \<and>
   (\<forall>r. compute_score c l s t ec ep ef = Inr r \<longrightarrow>
        0 \<le> finalScore r \<and> finalScore r \<le> 1 \<and>
        0 \<le> stabilityMultiplier r \<and> stabilityMultiplier r \<le> 1) \<and>
   (valid_inputs l s t \<longrightarrow>
      (\<exists>st r. stability_curve l s t = Inr st \<and> compute_score c l s t ec ep ef = Inr r))"
proof -
  have stab: "0 \<le> st \<and> st \<le> 1" if "stability_curve l s t = Inr st" for st
    using that by (rule stability_curve_range)
  have score: "0 \<le> finalScore r \<and> finalScore r \<le> 1 \<and>
        0 \<le> stabilityMultiplier r \<and> stabilityMultiplier r \<le> 1"
    if r: "compute_score c l s t ec ep ef = Inr r" for r
  proof (cases "stability_curve l s t")
    case (Inl e)
    then have "compute_score c l s t ec ep ef = Inl e" by (rule compute_score_Inl)
    with r show ?thesis by simp
  next
    case (Inr st)
    then have range: "0 \<le> st \<and> st \<le> 1" by (rule stability_curve_range)
    have "0 \<le> max 0 (min 1 (base_score c ec ep ef * st)) \<and>
          max 0 (min 1 (base_score c ec ep ef * st)) \<le> (1::real)" by simp
    then have final: "0 \<le> py_round (max 0 (min 1 (base_score c ec ep ef * st))) 4 \<and>
          py_round (max 0 (min 1 (base_score c ec ep ef * st))) 4 \<le> 1"
      using py_round_unit by blast
    from range have mult: "0 \<le> py_round st 4 \<and> py_round st 4 \<le> 1"
      using py_round_unit by blast
    from r final mult show ?thesis by (auto simp add: compute_score_Inr [OF Inr])
  qed
  have returns: "\<exists>st r. stability_curve l s t = Inr st \<and> compute_score c l s t ec ep ef = Inr r"
    if "valid_inputs l s t"
  proof -
    from that have "stability_curve l s t = Inr (spec_stability l s (real_of_int t))"
      by (rule stability_curve_spec)
    then show ?thesis by (simp add: compute_score_Inr)
  qed
  from stab score returns show ?thesis by blast
qed

theorem scores_in_unit_interval_witness:
  "valid_inputs 0 0 0 \<and>
   (\<exists>st r. stability_curve 0 0 0 = Inr st \<and> 0 \<le> st \<and> st \<le> 1 \<and>
      compute_score (snd (CONSTRUCTS ! 1)) 0 0 0 True True True = Inr r \<and>
      0 \<le> finalScore r \<and> finalScore r \<le> 1 \<and>
      0 \<le> stabilityMultiplier r \<and> stabilityMultiplier r \<le> 1)"
  using scores_in_unit_interval [of 0 0 0 "snd (CONSTRUCTS ! 1)" True True True]
    valid_inputs_zero
  by blast

subsection \<open>Error conditions\<close>

text \<open>
  C4 (as amended): on every valid input, negative latency, sync time or throughput
  included, \<open>stability_curve\<close> returns normally a value in \<open>[0,1]\<close>; the valid inputs
  contain every latency from \<open>-900000\<close>, every sync time from \<open>-480000\<close> and every
  throughput up to \<open>10\<^sup>3\<^sup>0\<^sup>0\<close> in absolute value other than \<open>-10000\<close>.
\<close>

theorem stability_curve_returns:
  "(valid_inputs l s t \<longrightarrow> (\<exists>v. stability_curve l s t = Inr v \<and> 0 \<le> v \<and> v \<le> 1)) \<and>
   (- 900000 \<le> l \<and> - 480000 \<le> s \<and> \<bar>t\<bar> \<le> 10 ^ 300 \<and> t \<noteq> - 10000 \<longrightarrow> valid_inputs l s t)"
  by (simp add: stability_curve_valid valid_inputs_bounds)

theorem stability_curve_returns_witness:
  "valid_inputs (- 100) (- 100) (- 5) \<and>
   (\<exists>v. stability_curve (- 100) (- 100) (- 5) = Inr v \<and> 0 \<le> v \<and> v \<le> 1)"
  using stability_curve_returns [of "- 100" "- 100" "- 5"] by simp

text \<open>The finite input \<open>(0, 0, -10000)\<close> divides by zero.\<close>

theorem stability_curve_returns_counterexample:
  "stability_curve 0 0 (- 10000) = Inl ZeroDivisionError"
  by (simp add: stability_curve_cases not_rounds_to_inf_le_one)

subsection \<open>Monotonicity\<close>

text \<open>
  C5 (as amended): stability is monotone non-increasing in the latency and in the sync time,
  the other parameters fixed: where the call at the smaller value returns, the call at the
  larger one returns no more. It is monotone non-increasing in the throughput between two
  throughputs on the same side of \<open>-10000\<close> at which the calls return.
\<close>

theorem stability_curve_monotone:
  "(stability_curve l1 s t = Inr a \<and> l1 \<le> l2 \<longrightarrow>
      (\<exists>b. stability_curve l2 s t = Inr b \<and> b \<le> a)) \<and>
   (stability_curve l s1 t = Inr a' \<and> s1 \<le> s2 \<longrightarrow>
      (\<exists>b. stability_curve l s2 t = Inr b \<and> b \<le> a')) \<and>
   (stability_curve l s t1 = Inr a'' \<and> stability_curve l s t2 = Inr b'' \<and> t1 \<le> t2 \<and>
      (- 10000 < t1 \<or> t2 < - 10000) \<longrightarrow> b'' \<le> a'')"
  using stability_mono_latency stability_mono_sync stability_mono_throughput
  by blast

theorem stability_curve_monotone_witness:
  "stability_curve 0 0 0 = Inr 1 \<and>
   (\<exists>b. stability_curve 1500 0 0 = Inr b \<and> b \<le> 1) \<and>
   (\<exists>b. stability_curve 0 800 0 = Inr b \<and> b \<le> 1) \<and>
   stability_curve 0 0 10000 = Inr (5 / 6) \<and> (5 / 6 :: real) \<le> 1"
proof -
  have t: "stability_curve 0 0 10000 = Inr (5 / 6)"
    by (simp add: stability_curve_cases not_rounds_to_inf_le_one)
  from stability_curve_monotone
    [of 0 0 0 1 1500 0 0 1 800 0 1 10000 "5 / 6"]
  show ?thesis using stability_curve_origin t by simp
qed

text \<open>
  Across the pole the stability rises: from throughput \<open>-20000\<close> to throughput \<open>0\<close>, latency
  and sync time zero, it goes from \<open>1/3\<close> to \<open>1\<close>.
\<close>

theorem stability_curve_monotone_counterexample:
  "(- 20000 :: int) \<le> 0 \<and>
   stability_curve 0 0 (- 20000) = Inr (1 / 3) \<and>
   stability_curve 0 0 0 = Inr 1 \<and>
   \<not> (1 :: real) \<le> 1 / 3"
  by (simp add: stability_curve_cases not_rounds_to_inf_small)

subsection \<open>Feature flags\<close>

text \<open>
  C6: for any construct and any runtime parameters on which a run returns, the same run
  with more of the flags commitments, proofs and FHE enabled returns too, with the same
  stability multiplier and a \<open>finalScore\<close> at least as large.
\<close>

theorem flags_never_decrease_score:
  assumes "compute_score c l s t ec ep ef = Inr r"
    and "ec \<longrightarrow> ec'" and "ep \<longrightarrow> ep'" and "ef \<longrightarrow> ef'"
  shows "\<exists>r'. compute_score c l s t ec' ep' ef' = Inr r' \<and>
              stabilityMultiplier r' = stabilityMultiplier r \<and>
              finalScore r \<le> finalScore r'"
proof (cases "stability_curve l s t")
  case (Inl e)
  then have "compute_score c l s t ec ep ef = Inl e" by (rule compute_score_Inl)
  with assms(1) show ?thesis by simp
next
  case (Inr st)
  then have "0 \<le> st" using stability_curve_range by blast
  moreover have "base_score c ec ep ef \<le> base_score c ec' ep' ef'"
    using assms(2-4) by (rule base_score_flags_mono)
  ultimately have "base_score c ec ep ef * st \<le> base_score c ec' ep' ef' * st"
    by (rule mult_right_mono [rotated])
  then have "max 0 (min 1 (base_score c ec ep ef * st))
      \<le> max 0 (min 1 (base_score c ec' ep' ef' * st))" by (rule clamp_unit_mono)
  then have "py_round (max 0 (min 1 (base_score c ec ep ef * st))) 4
      \<le> py_round (max 0 (min 1 (base_score c ec' ep' ef' * st))) 4" by (rule py_round_mono)
  moreover from assms(1)
  have "finalScore r = py_round (max 0 (min 1 (base_score c ec ep ef * st))) 4"
    and "stabilityMultiplier r = py_round st 4"
    by (auto simp add: compute_score_Inr [OF Inr])
  ultimately show ?thesis by (simp add: compute_score_Inr [OF Inr])
qed

theorem flags_never_decrease_score_witness:
  "(\<exists>r. compute_score (snd (CONSTRUCTS ! 0)) 0 0 0 False False False = Inr r) \<and>
   (\<exists>r r'. compute_score (snd (CONSTRUCTS ! 0)) 0 0 0 False False False = Inr r \<and>
       compute_score (snd (CONSTRUCTS ! 0)) 0 0 0 True False True = Inr r' \<and>
       finalScore r \<le> finalScore r')"
proof -
  let ?c = "snd (CONSTRUCTS ! 0)"
  obtain r where r: "compute_score ?c 0 0 0 False False False = Inr r"
    by (simp add: compute_score_Inr [OF stability_curve_origin])
  from flags_never_decrease_score [OF r, of True False True]
  obtain r' where "compute_score ?c 0 0 0 True False True = Inr r'"
    and "finalScore r \<le> finalScore r'" by auto
  with r show ?thesis by blast
qed

subsection \<open>The zero point\<close>

text \<open>
  C7: \<open>stability(0, 0, 0)\<close> is exactly 1: the latency term, the sync term and the throughput
  term are each exactly 1, their average is 1 and the clamp leaves it unchanged.
\<close>

theorem stability_curve_zero:
  "math_exp (- 0 / 1500) = Inr 1 \<and>
   math_exp (- 0 / 800) = Inr 1 \<and>
   seq (int_truediv 0 10000) (\<lambda>load. float_div 1 (1 + load)) = Inr 1 \<and>
   max 0 (min 1 ((1 + 1 + 1) / 3)) = ((1 + 1 + 1) / 3 :: real) \<and>
   stability_curve 0 0 0 = Inr 1"
  by (simp add: stability_curve_cases math_exp_nonpos int_truediv_def float_div_def
      not_rounds_to_inf_le_one)

subsection \<open>The catalog\<close>

text \<open>
  C8: the catalog holds the three presets \<open>aztec-zk\<close>, \<open>zama-fhe\<close> and \<open>soundness-lab\<close>
  with the names, categories and the three factors of the specification's table, and the
  lookup of each key returns its profile.
\<close>

theorem catalog_presets:
  "map_sum id (\<lambda>c. (key c, name c, category c,
                     baseline_security c, privacy_factor c, scalability_factor c))
      (getitem CONSTRUCTS ''aztec-zk'')
     = Inr (''aztec-zk'', ''Aztec-Style zk Circuit'', ''zk privacy'', 0.81, 0.94, 0.58) \<and>
   map_sum id (\<lambda>c. (key c, name c, category c,
                     baseline_security c, privacy_factor c, scalability_factor c))
      (getitem CONSTRUCTS ''zama-fhe'')
     = Inr (''zama-fhe'', ''Zama FHE Compute Layer'', ''fhe compute'', 0.89, 0.87, 0.42) \<and>
   map_sum id (\<lambda>c. (key c, name c, category c,
                     baseline_security c, privacy_factor c, scalability_factor c))
      (getitem CONSTRUCTS ''soundness-lab'')
     = Inr (''soundness-lab'', ''Soundness-Driven Formal Model'', ''formal verification'',
            0.97, 0.51, 0.72) \<and>
   keys CONSTRUCTS = [''aztec-zk'', ''zama-fhe'', ''soundness-lab'']"
  by (simp add: getitem_def CONSTRUCTS_def keys_def)

subsection \<open>Unknown constructs\<close>

text \<open>
  C9: the lookup of a key outside the catalog returns no profile: it raises the
  \<open>KeyError\<close> of that key, Python's unknown-construct error. On the command line such a
  key fails the check of \<open>--construct\<close> against the catalog keys, and \<open>main\<close> ends with exit
  status 2 before any lookup or computation, whatever the other options are.
\<close>

theorem unknown_construct_rejected:
  "k \<notin> set (keys CONSTRUCTS) \<Longrightarrow>
   getitem CONSTRUCTS k = Inl (KeyError k) \<and>
   parse_args (argv\<lparr>opt_construct := Some k\<rparr>) = Inl (SystemExit 2) \<and>
   main (argv\<lparr>opt_construct := Some k\<rparr>) = Inl (SystemExit 2)"
  by (simp add: getitem_unknown parse_args_unknown main_def)

theorem unknown_construct_rejected_witness:
  "''unknown-key'' \<notin> set (keys CONSTRUCTS) \<and>
   getitem CONSTRUCTS ''unknown-key'' = Inl (KeyError ''unknown-key'') \<and>
   main \<lparr> opt_construct = Some ''unknown-key'', opt_latency = None, opt_sync = None,
          opt_throughput = Some (- 10000), opt_commitments = False, opt_proofs = False,
          opt_fhe = False, opt_json = False \<rparr> = Inl (SystemExit 2)"
proof -
  have k: "''unknown-key'' \<notin> set (keys CONSTRUCTS)"
    by (simp add: keys_def CONSTRUCTS_def)
  from unknown_construct_rejected [OF k,
      of "\<lparr> opt_construct = None, opt_latency = None, opt_sync = None,
          opt_throughput = Some (- 10000), opt_commitments = False, opt_proofs = False,
          opt_fhe = False, opt_json = False \<rparr>"]
  show ?thesis using k by simp
qed

subsection \<open>The final clamp on the catalog\<close>

text \<open>
  C10 (as amended): for every construct of the catalog and every combination of the flags
  the base score the program computes lies between the double \<open>0.743\<close>, the base of
  \<open>zama-fhe\<close> with no flag, and the double \<open>0.9400000000000002\<close>, the base of \<open>aztec-zk\<close>
  with all three bonuses, one step of rounding above \<open>0.94\<close>. Hence for a stability
  multiplier in \<open>[0,1]\<close> the rounded product \<open>base * stability\<close> lies in \<open>[0,1]\<close>, the final
  clamp changes nothing, and the \<open>finalScore\<close> returned is that product rounded to 4
  decimal places.
\<close>

theorem catalog_clamp_noop:
  assumes "(k, c) \<in> set CONSTRUCTS"
  shows "fl 0.743 \<le> base_score_f64 c ec ep ef \<and>
         base_score_f64 c ec ep ef \<le> fl 0.9400000000000002 \<and>
         base_score_f64 (snd (CONSTRUCTS ! 0)) True True True = fl 0.9400000000000002 \<and>
         base_score_f64 (snd (CONSTRUCTS ! 1)) False False False = fl 0.743 \<and>
         (\<forall>st. 0 \<le> st \<and> st \<le> 1 \<longrightarrow>
            0 \<le> fl (base_score_f64 c ec ep ef * st) \<and>
            fl (base_score_f64 c ec ep ef * st) \<le> 1 \<and>
            max 0 (min 1 (fl (base_score_f64 c ec ep ef * st)))
              = fl (base_score_f64 c ec ep ef * st)) \<and>
         (\<forall>st. stability_curve_f64 libm_exp l s t = Inr st \<longrightarrow>
            (\<exists>r. compute_score_f64 libm_exp c l s t ec ep ef = Inr r \<and>
                 finalScore r = py_round (fl (base_score_f64 c ec ep ef * st)) 4))"
proof -
  let ?b = "base_score_f64 c ec ep ef"
  from assms have bb: "fl 0.743 \<le> ?b \<and> ?b \<le> fl 0.9400000000000002"
    by (rule catalog_base_f64_bounds)
  then have b: "0 \<le> ?b \<and> ?b \<le> 19 / 20" by (simp add: fl_evals)
  have prod: "0 \<le> fl (?b * st) \<and> fl (?b * st) \<le> 1" if "0 \<le> st \<and> st \<le> 1" for st
  proof (rule fl_unit)
    from b that show "0 \<le> ?b * st" by simp
    from b that have "?b * st \<le> (19 / 20) * 1" by (intro mult_mono) simp_all
    then show "?b * st \<le> 19 / 20" by simp
  qed
  have noop: "max 0 (min 1 (fl (?b * st))) = fl (?b * st)" if "0 \<le> st \<and> st \<le> 1" for st
    using prod [OF that] by (auto simp add: max_def min_def)
  have "\<exists>r. compute_score_f64 libm_exp c l s t ec ep ef = Inr r \<and>
            finalScore r = py_round (fl (?b * st)) 4"
    if st: "stability_curve_f64 libm_exp l s t = Inr st" for st
  proof -
    from st have "0 \<le> st \<and> st \<le> 1" by (rule stability_curve_f64_range)
    then show ?thesis by (simp add: compute_score_f64_Inr [OF st] noop)
  qed
  with bb prod noop catalog_base_f64_max catalog_base_f64_min show ?thesis by blast
qed

text \<open>
  \<open>zama-fhe\<close> at latency and sync time zero, throughput 30000, no flag: the stability is
  \<open>0.75\<close>, the rounded product lies just above \<open>0.55725\<close> and the score is \<open>0.5573\<close>.
\<close>

theorem catalog_clamp_noop_witness:
  "(''zama-fhe'', snd (CONSTRUCTS ! 1)) \<in> set CONSTRUCTS \<and>
   stability_curve_f64 libm_nearest 0 0 30000 = Inr (3 / 4) \<and>
   (\<exists>r. compute_score_f64 libm_nearest (snd (CONSTRUCTS ! 1)) 0 0 30000 False False False = Inr r \<and>
        finalScore r = 0.5573)"
proof -
  let ?c = "snd (CONSTRUCTS ! 1)"
  have m: "(''zama-fhe'', ?c) \<in> set CONSTRUCTS"
    by (simp add: CONSTRUCTS_def)
  have prod: "fl (fl 0.743 * (3 / 4)) = 2509630892352209 / 4503599627370496"
    by (simp add: fl_evals)
  have rnd: "py_round (2509630892352209 / 4503599627370496) 4 = 0.5573"
    by (simp add: py_round_def round_half_even_def)
  from catalog_clamp_noop [OF m, of False False False libm_nearest 0 0 30000]
    stability_curve_f64_30000
  obtain r where "compute_score_f64 libm_nearest ?c 0 0 30000 False False False = Inr r"
    and "finalScore r = py_round (fl (base_score_f64 ?c False False False * (3 / 4))) 4"
    by blast
  then have "compute_score_f64 libm_nearest ?c 0 0 30000 False False False = Inr r
      \<and> finalScore r = 0.5573"
    by (simp only: catalog_base_f64_min prod rnd)
  with m stability_curve_f64_30000 show ?thesis by blast
qed

text \<open>
  The base of \<open>aztec-zk\<close> with all three bonuses exceeds \<open>0.94\<close>, the double as well as the
  decimal fraction.
\<close>

theorem catalog_clamp_noop_counterexample:
  "fl 0.94 < base_score_f64 (snd (CONSTRUCTS ! 0)) True True True \<and>
   0.94 < base_score_f64 (snd (CONSTRUCTS ! 0)) True True True"
  by (simp add: catalog_base_f64_max fl_evals)

end
